theory Spec2Isabelle
  imports Complex_Main "HOL-Library.AList"
begin

section \<open>Values on the wire\<close>

text \<open>
  The server reads every inbound frame with \<^verbatim>\<open>JSON.parse\<close>. A parsed value is a JSON
  value; reading a property that is absent gives \<^verbatim>\<open>undefined\<close>, which is a value of
  its own here. Numbers are the finite values a JSON text can denote.
\<close>

datatype json =
    JUndefined
  | JNull
  | JBool bool
  | JNum rat
  | JStr string
  | JArr "json list"
  | JObj "(string \<times> json) list"

text \<open>\<^verbatim>\<open>message.k\<close>: own property of an object (the last one when the text repeats a
  key), \<^verbatim>\<open>undefined\<close> on anything else that is not null.\<close>

fun get_prop :: "string \<Rightarrow> json \<Rightarrow> json" where
  "get_prop k (JObj kvs) = (case map_of (rev kvs) k of Some v \<Rightarrow> v | None \<Rightarrow> JUndefined)"
| "get_prop k v = JUndefined"

text \<open>JavaScript truthiness, as used by \<^verbatim>\<open>message.roomId || "default"\<close> and
  \<^verbatim>\<open>if (userId && roomId)\<close>.\<close>

fun truthy :: "json \<Rightarrow> bool" where
  "truthy JUndefined = False"
| "truthy JNull = False"
| "truthy (JBool b) = b"
| "truthy (JNum n) = (n \<noteq> 0)"
| "truthy (JStr s) = (s \<noteq> [])"
| "truthy (JArr xs) = True"
| "truthy (JObj kvs) = True"

text \<open>
  Room ids and user ids are used as \<^verbatim>\<open>Map\<close> keys and compared with \<^verbatim>\<open>===\<close>. Primitives
  compare by value; an array or object compares by reference, so it carries the address
  it was allocated at.
\<close>

datatype jsv = Prim json | Ref nat json

fun to_jsv :: "nat \<Rightarrow> json \<Rightarrow> jsv" where
  "to_jsv a (JArr xs) = Ref a (JArr xs)"
| "to_jsv a (JObj kvs) = Ref a (JObj kvs)"
| "to_jsv a v = Prim v"

fun val_of :: "jsv \<Rightarrow> json" where
  "val_of (Prim v) = v"
| "val_of (Ref a v) = v"

section \<open>Server state\<close>

text \<open>One segment as the server stores and rebroadcasts it:
  \<^verbatim>\<open>{ userId, type: message.tool, data: message.data }\<close>.\<close>

record action =
  a_userId :: json
  a_type :: json
  a_data :: json

type_synonym stroke = "action list"

record user =
  u_userName :: json
  u_color :: json

text \<open>A room: \<^verbatim>\<open>{ users: new Map(), history: [], redoStack: [] }\<close>. The arrays grow at
  the end (\<^verbatim>\<open>push\<close>) and shrink at the end (\<^verbatim>\<open>pop\<close>).\<close>

record room =
  users :: "(jsv \<times> user) list"
  history :: "stroke list"
  redoStack :: "stroke list"

text \<open>A connection: the socket's \<^verbatim>\<open>readyState\<close> and the two properties the server
  puts on it at join (absent before), followed by the variables closed over by the
  connection callback.\<close>

record conn =
  readyState :: nat
  ws_roomId :: "jsv option"
  ws_userId :: "jsv option"
  userId :: jsv
  userName :: json
  userColor :: json
  roomId :: jsv
  currentStroke :: stroke

text \<open>The process: the \<^verbatim>\<open>rooms\<close> map, \<^verbatim>\<open>wss.clients\<close> in insertion order (each socket
  with its closure), and the next free address for parsed objects.\<close>

record server =
  rooms :: "jsv \<rightharpoonup> room"
  clients :: "(nat \<times> conn) list"
  next_ref :: nat

datatype server_msg =
    Joined json "(json \<times> user) list" "stroke list"
  | UserJoined json json json
  | DrawMsg action
  | CursorMove json json json json json
  | HistoryMsg "stroke list"
  | UserLeft json

datatype exn = SyntaxError | TypeError | RangeError

text \<open>What a handler does to the outside: \<^verbatim>\<open>ws.send\<close> on one socket, one run of
  \<^verbatim>\<open>broadcastToRoom\<close> to its end (with the sockets it sent to, in order),
  \<^verbatim>\<open>console.error\<close> in the \<^verbatim>\<open>catch\<close>, an exception that leaves a callback which has no
  \<^verbatim>\<open>try\<close>.\<close>

datatype effect =
    Send nat server_msg
  | Broadcast jsv server_msg "nat list"
  | ConsoleError exn
  | Uncaught exn

text \<open>The outcome of \<^verbatim>\<open>JSON.parse(data)\<close>: it throws, or it returns a value.\<close>

datatype inbound = Unparseable | Parsed json

definition default_room :: jsv where
  "default_room = Prim (JStr ''default'')"

definition new_room :: room where
  "new_room = \<lparr>users = [], history = [], redoStack = []\<rparr>"

definition init_conn :: conn where
  "init_conn = \<lparr>readyState = 1, ws_roomId = None, ws_userId = None,
     userId = Prim JNull, userName = JNull, userColor = JNull,
     roomId = default_room, currentStroke = []\<rparr>"

definition init_server :: server where
  "init_server = \<lparr>rooms = Map.empty, clients = [], next_ref = 0\<rparr>"

section \<open>Room management\<close>

text \<open>\<^verbatim>\<open>getRoom\<close>: creates the room when the id is new; returns the room and the map.\<close>

definition getRoom :: "jsv \<Rightarrow> (jsv \<rightharpoonup> room) \<Rightarrow> room \<times> (jsv \<rightharpoonup> room)" where
  "getRoom rid rs =
     (case rs rid of
        None \<Rightarrow> (new_room, rs(rid \<mapsto> new_room))
      | Some r \<Rightarrow> (r, rs))"

definition colors :: "string list" where
  "colors = [''#FF6B6B'', ''#4ECDC4'', ''#45B7D1'', ''#FFA07A'', ''#98D8C8'', ''#F7DC6F'']"

text \<open>\<^verbatim>\<open>assignColor\<close>; the argument is \<^verbatim>\<open>Math.floor(Math.random() * colors.length)\<close>.\<close>

definition assignColor :: "nat \<Rightarrow> json" where
  "assignColor n = (if n < length colors then JStr (colors ! n) else JUndefined)"

text \<open>\<^verbatim>\<open>broadcastToRoom\<close>: every socket of \<^verbatim>\<open>wss.clients\<close> that is open and whose
  \<^verbatim>\<open>roomId\<close> property is the room id, in the order of the set.\<close>

definition in_room :: "conn \<Rightarrow> jsv \<Rightarrow> bool" where
  "in_room client rid = (readyState client = 1 \<and> ws_roomId client = Some rid)"

definition receivers :: "(nat \<times> conn) list \<Rightarrow> jsv \<Rightarrow> nat list" where
  "receivers cs rid = map fst (filter (\<lambda>(i, client). in_room client rid) cs)"

text \<open>
  \<^verbatim>\<open>JSON.stringify(message)\<close> recurses over the message and throws a \<^verbatim>\<open>RangeError\<close> when
  the message is nested deeper than the stack of the engine allows; the messages hold
  values that clients sent, nested as deep as the client liked. Of which messages that
  is so depends on the engine: it is the parameter \<open>deep\<close>. The message
  \<^verbatim>\<open>{ type: "history", history: [] }\<close> holds nothing from a client and always serialises.
\<close>

fun stringify_throws :: "(server_msg \<Rightarrow> bool) \<Rightarrow> server_msg \<Rightarrow> bool" where
  "stringify_throws deep (HistoryMsg []) = False"
| "stringify_throws deep m = deep m"

text \<open>\<^verbatim>\<open>broadcastToRoom\<close> runs \<^verbatim>\<open>client.send(JSON.stringify(message))\<close> for each socket that
  passes the test. When \<^verbatim>\<open>JSON.stringify\<close> throws it does so for the first such socket,
  which ends the loop before anything is sent; with no such socket it is never called.\<close>

definition broadcastToRoom ::
  "(server_msg \<Rightarrow> bool) \<Rightarrow> (nat \<times> conn) list \<Rightarrow> jsv \<Rightarrow> server_msg \<Rightarrow> exn + effect" where
  "broadcastToRoom deep cs rid m =
     (if receivers cs rid \<noteq> [] \<and> stringify_throws deep m then Inl RangeError
      else Inr (Broadcast rid m (receivers cs rid)))"

section \<open>The message handler\<close>

text \<open>How a case of the switch ends: the state with the writes made so far, what has
  been sent, and the exception that cut the case short, if any.\<close>

type_synonym outcome = "server \<times> effect list \<times> exn option"

text \<open>The rest of a case whose last statement is a broadcast.\<close>

fun after_broadcast :: "server \<Rightarrow> effect list \<Rightarrow> exn + effect \<Rightarrow> outcome" where
  "after_broadcast s sent (Inl e) = (s, sent, Some e)"
| "after_broadcast s sent (Inr b) = (s, sent @ [b], None)"

definition set_conn :: "nat \<Rightarrow> conn \<Rightarrow> server \<Rightarrow> server" where
  "set_conn cid c s = s\<lparr>clients := AList.update cid c (clients s)\<rparr>"

text \<open>Case \<^verbatim>\<open>"join"\<close>. The reply is serialised after the roster and the socket have
  been written; when that throws, neither the reply nor the broadcast happens.\<close>

definition case_join ::
  "(server_msg \<Rightarrow> bool) \<Rightarrow> server \<Rightarrow> nat \<Rightarrow> conn \<Rightarrow> nat \<Rightarrow> json \<Rightarrow> outcome" where
  "case_join deep s cid c rnd m =
     (let uid = to_jsv (next_ref s) (get_prop ''userId'' m);
          uname = get_prop ''userName'' m;
          rid = (if truthy (get_prop ''roomId'' m)
                 then to_jsv (Suc (next_ref s)) (get_prop ''roomId'' m)
                 else default_room);
          col = assignColor rnd;
          (r, rs) = getRoom rid (rooms s);
          r' = r\<lparr>users := AList.update uid \<lparr>u_userName = uname, u_color = col\<rparr> (users r)\<rparr>;
          c' = c\<lparr>userId := uid, userName := uname, roomId := rid, userColor := col,
                 ws_roomId := Some rid, ws_userId := Some uid\<rparr>;
          s' = set_conn cid c' (s\<lparr>rooms := rs(rid \<mapsto> r'), next_ref := next_ref s + 2\<rparr>);
          reply = Joined col (map (\<lambda>(k, u). (val_of k, u)) (users r')) (history r')
      in if stringify_throws deep reply then (s', [], Some RangeError)
         else after_broadcast s' [Send cid reply]
                (broadcastToRoom deep (clients s') rid (UserJoined (val_of uid) uname col)))"

definition case_startStroke :: "server \<Rightarrow> nat \<Rightarrow> conn \<Rightarrow> outcome" where
  "case_startStroke s cid c = (set_conn cid (c\<lparr>currentStroke := []\<rparr>) s, [], None)"

definition case_draw :: "(server_msg \<Rightarrow> bool) \<Rightarrow> server \<Rightarrow> nat \<Rightarrow> conn \<Rightarrow> json \<Rightarrow> outcome" where
  "case_draw deep s cid c m =
     (let (r, rs) = getRoom (roomId c) (rooms s);
          act = \<lparr>a_userId = val_of (userId c), a_type = get_prop ''tool'' m, a_data = get_prop ''data'' m\<rparr>;
          s' = set_conn cid (c\<lparr>currentStroke := currentStroke c @ [act]\<rparr>) (s\<lparr>rooms := rs\<rparr>)
      in after_broadcast s' [] (broadcastToRoom deep (clients s') (roomId c) (DrawMsg act)))"

definition case_endStroke :: "server \<Rightarrow> nat \<Rightarrow> conn \<Rightarrow> outcome" where
  "case_endStroke s cid c =
     (let (r, rs) = getRoom (roomId c) (rooms s)
      in if length (currentStroke c) > 0
         then (set_conn cid (c\<lparr>currentStroke := []\<rparr>)
                 (s\<lparr>rooms := rs(roomId c \<mapsto> r\<lparr>history := history r @ [currentStroke c],
                                                redoStack := []\<rparr>)\<rparr>), [], None)
         else (s\<lparr>rooms := rs\<rparr>, [], None))"

definition case_cursor :: "(server_msg \<Rightarrow> bool) \<Rightarrow> server \<Rightarrow> nat \<Rightarrow> conn \<Rightarrow> json \<Rightarrow> outcome" where
  "case_cursor deep s cid c m =
     after_broadcast s []
       (broadcastToRoom deep (clients s) (roomId c)
          (CursorMove (val_of (userId c)) (userName c) (userColor c) (get_prop ''x'' m) (get_prop ''y'' m)))"

definition case_undo :: "(server_msg \<Rightarrow> bool) \<Rightarrow> server \<Rightarrow> nat \<Rightarrow> conn \<Rightarrow> outcome" where
  "case_undo deep s cid c =
     (let (r, rs) = getRoom (roomId c) (rooms s);
          r' = (if length (history r) > 0
                then r\<lparr>history := butlast (history r),
                       redoStack := redoStack r @ [last (history r)]\<rparr>
                else r)
      in after_broadcast (s\<lparr>rooms := rs(roomId c \<mapsto> r')\<rparr>) []
           (broadcastToRoom deep (clients s) (roomId c) (HistoryMsg (history r'))))"

definition case_redo :: "(server_msg \<Rightarrow> bool) \<Rightarrow> server \<Rightarrow> nat \<Rightarrow> conn \<Rightarrow> outcome" where
  "case_redo deep s cid c =
     (let (r, rs) = getRoom (roomId c) (rooms s);
          r' = (if length (redoStack r) > 0
                then r\<lparr>redoStack := butlast (redoStack r),
                       history := history r @ [last (redoStack r)]\<rparr>
                else r)
      in after_broadcast (s\<lparr>rooms := rs(roomId c \<mapsto> r')\<rparr>) []
           (broadcastToRoom deep (clients s) (roomId c) (HistoryMsg (history r'))))"

definition case_clear :: "(server_msg \<Rightarrow> bool) \<Rightarrow> server \<Rightarrow> nat \<Rightarrow> conn \<Rightarrow> outcome" where
  "case_clear deep s cid c =
     (let (r, rs) = getRoom (roomId c) (rooms s)
      in after_broadcast (s\<lparr>rooms := rs(roomId c \<mapsto> r\<lparr>history := [], redoStack := []\<rparr>)\<rparr>) []
           (broadcastToRoom deep (clients s) (roomId c) (HistoryMsg [])))"

text \<open>\<^verbatim>\<open>message.type\<close>: reading a property of \<^verbatim>\<open>null\<close> throws.\<close>

fun message_type :: "json \<Rightarrow> exn + json" where
  "message_type JNull = Inl TypeError"
| "message_type JUndefined = Inl TypeError"
| "message_type m = Inr (get_prop ''type'' m)"

text \<open>The \<^verbatim>\<open>switch\<close>; a type that matches no case does nothing.\<close>

definition dispatch ::
  "(server_msg \<Rightarrow> bool) \<Rightarrow> server \<Rightarrow> nat \<Rightarrow> conn \<Rightarrow> nat \<Rightarrow> json \<Rightarrow> json \<Rightarrow> outcome" where
  "dispatch deep s cid c rnd m t =
     (if t = JStr ''join'' then case_join deep s cid c rnd m
      else if t = JStr ''startStroke'' then case_startStroke s cid c
      else if t = JStr ''draw'' then case_draw deep s cid c m
      else if t = JStr ''endStroke'' then case_endStroke s cid c
      else if t = JStr ''cursor'' then case_cursor deep s cid c m
      else if t = JStr ''undo'' then case_undo deep s cid c
      else if t = JStr ''redo'' then case_redo deep s cid c
      else if t = JStr ''clear'' then case_clear deep s cid c
      else (s, [], None))"

text \<open>The body of the \<^verbatim>\<open>try\<close>. \<^verbatim>\<open>JSON.parse\<close> and \<^verbatim>\<open>message.type\<close> throw before
  anything is written; \<^verbatim>\<open>JSON.stringify\<close> throws inside a case, after its writes.\<close>

definition try_body ::
  "(server_msg \<Rightarrow> bool) \<Rightarrow> server \<Rightarrow> nat \<Rightarrow> conn \<Rightarrow> nat \<Rightarrow> inbound \<Rightarrow> outcome" where
  "try_body deep s cid c rnd inb =
     (case inb of
        Unparseable \<Rightarrow> (s, [], Some SyntaxError)
      | Parsed m \<Rightarrow>
          (case message_type m of
             Inl e \<Rightarrow> (s, [], Some e)
           | Inr t \<Rightarrow> dispatch deep s cid c rnd m t))"

text \<open>The \<^verbatim>\<open>catch\<close>: it logs and returns; what was written and sent before stays.\<close>

fun caught :: "outcome \<Rightarrow> server \<times> effect list" where
  "caught (s, sent, None) = (s, sent)"
| "caught (s, sent, Some e) = (s, sent @ [ConsoleError e])"

text \<open>\<^verbatim>\<open>ws.on("message")\<close> for the connection \<open>cid\<close>; \<open>rnd\<close> is the random index drawn
  by \<^verbatim>\<open>assignColor\<close>. A socket that is not in the server has no handler to run.\<close>

definition on_message ::
  "(server_msg \<Rightarrow> bool) \<Rightarrow> server \<Rightarrow> nat \<Rightarrow> nat \<Rightarrow> inbound \<Rightarrow> server \<times> effect list" where
  "on_message deep s cid rnd inb =
     (case map_of (clients s) cid of
        None \<Rightarrow> (s, [])
      | Some c \<Rightarrow> caught (try_body deep s cid c rnd inb))"

section \<open>Connections opening and closing\<close>

text \<open>\<^verbatim>\<open>wss.on("connection")\<close>: the library has added the open socket to
  \<^verbatim>\<open>wss.clients\<close>; the callback initialises its variables.\<close>

definition on_connection :: "server \<Rightarrow> nat \<Rightarrow> server" where
  "on_connection s cid =
     (case map_of (clients s) cid of
        None \<Rightarrow> s\<lparr>clients := clients s @ [(cid, init_conn)]\<rparr>
      | Some c \<Rightarrow> s)"

text \<open>An exception in a callback that has no \<^verbatim>\<open>try\<close> leaves it.\<close>

fun uncaught :: "outcome \<Rightarrow> server \<times> effect list" where
  "uncaught (s, sent, None) = (s, sent)"
| "uncaught (s, sent, Some e) = (s, sent @ [Uncaught e])"

text \<open>\<^verbatim>\<open>ws.on("close")\<close>: the library has taken the closed socket out of
  \<^verbatim>\<open>wss.clients\<close>; the callback removes the user from the room and tells the room.\<close>

definition on_close :: "(server_msg \<Rightarrow> bool) \<Rightarrow> server \<Rightarrow> nat \<Rightarrow> server \<times> effect list" where
  "on_close deep s cid =
     (case map_of (clients s) cid of
        None \<Rightarrow> (s, [])
      | Some c \<Rightarrow>
          (let s1 = s\<lparr>clients := AList.delete cid (clients s)\<rparr>
           in if truthy (val_of (userId c)) \<and> truthy (val_of (roomId c))
              then (let (r, rs) = getRoom (roomId c) (rooms s1)
                    in uncaught
                         (after_broadcast
                            (s1\<lparr>rooms := rs(roomId c \<mapsto> r\<lparr>users := AList.delete (userId c) (users r)\<rparr>)\<rparr>) []
                            (broadcastToRoom deep (clients s1) (roomId c) (UserLeft (val_of (userId c))))))
              else (s1, [])))"

datatype event = Connection nat | Message nat nat inbound | Close nat

text \<open>One event on a server whose engine is \<open>deep\<close>. The state after an event is the
  state as written, also when an exception was logged or left the callback.\<close>

fun step :: "(server_msg \<Rightarrow> bool) \<Rightarrow> server \<Rightarrow> event \<Rightarrow> server" where
  "step deep s (Connection cid) = on_connection s cid"
| "step deep s (Message cid rnd inb) = fst (on_message deep s cid rnd inb)"
| "step deep s (Close cid) = fst (on_close deep s cid)"

definition run :: "(server_msg \<Rightarrow> bool) \<Rightarrow> server \<Rightarrow> event list \<Rightarrow> server" where
  "run deep s es = foldl (step deep) s es"

section \<open>The client's side of a live segment\<close>

text \<open>
  \<^verbatim>\<open>handleMessage\<close>, case \<^verbatim>\<open>"draw"\<close>, in the browser: the segment goes on to be drawn
  when \<^verbatim>\<open>msg.action.userId !== this.userId\<close>, where \<^verbatim>\<open>this.userId\<close> is the string the
  client made up for itself. Other messages do not go through this case.
\<close>

fun passes_echo_filter :: "string \<Rightarrow> server_msg \<Rightarrow> bool" where
  "passes_echo_filter me (DrawMsg a) = (a_userId a \<noteq> JStr me)"
| "passes_echo_filter me other = False"

section \<open>Observations\<close>

text \<open>The room a handler works on when it calls \<^verbatim>\<open>getRoom(rid)\<close>: the stored room, or
  the empty room that the call creates.\<close>

definition room_of :: "server \<Rightarrow> jsv \<Rightarrow> room" where
  "room_of s rid = fst (getRoom rid (rooms s))"

text \<open>A message object that carries nothing but its type.\<close>

definition msg :: "string \<Rightarrow> json" where
  "msg t = JObj [(''type'', JStr t)]"



text \<open>A connection that has not joined: apart from the socket state and the stroke
  being drawn, everything is as the connection callback left it.\<close>

definition before_join :: "conn \<Rightarrow> bool" where
  "before_join c =
     (ws_roomId c = None \<and> ws_userId c = None \<and> userId c = Prim JNull \<and>
      userName c = JNull \<and> userColor c = JNull \<and> roomId c = default_room)"

fun is_undo :: "event \<Rightarrow> bool" where
  "is_undo (Message cid rnd (Parsed m)) = (get_prop ''type'' m = JStr ''undo'')"
| "is_undo e = False"

text \<open>The sockets of \<^verbatim>\<open>wss.clients\<close>, each with its \<^verbatim>\<open>readyState\<close>.\<close>

definition sockets :: "server \<Rightarrow> (nat \<times> nat) list" where
  "sockets s = map (\<lambda>(i, client). (i, readyState client)) (clients s)"

text \<open>No room has anything to redo.\<close>

definition nothing_undone :: "server \<Rightarrow> bool" where
  "nothing_undone s = (\<forall>rid r. rooms s rid = Some r \<longrightarrow> redoStack r = [])"

section \<open>Sample data\<close>

text \<open>An engine for the examples: \<^verbatim>\<open>JSON.stringify\<close> runs out of stack on a message
  that holds a client value nested deeper than a limit.\<close>

fun depth :: "json \<Rightarrow> nat" where
  "depth (JArr xs) = Suc (foldr max (map depth xs) 0)"
| "depth (JObj kvs) = Suc (foldr max (map (\<lambda>kv. depth (snd kv)) kvs) 0)"
| "depth v = 0"

definition action_values :: "action \<Rightarrow> json list" where
  "action_values a = [a_userId a, a_type a, a_data a]"

fun msg_values :: "server_msg \<Rightarrow> json list" where
  "msg_values (Joined col us h) =
     col # concat (map (\<lambda>(k, u). [k, u_userName u, u_color u]) us)
       @ concat (map action_values (concat h))"
| "msg_values (UserJoined uid uname col) = [uid, uname, col]"
| "msg_values (DrawMsg a) = action_values a"
| "msg_values (CursorMove uid uname col x y) = [uid, uname, col, x, y]"
| "msg_values (HistoryMsg h) = concat (map action_values (concat h))"
| "msg_values (UserLeft uid) = [uid]"

definition deeper_than :: "nat \<Rightarrow> server_msg \<Rightarrow> bool" where
  "deeper_than limit m = list_ex (\<lambda>v. limit < depth v) (msg_values m)"

definition engine :: "server_msg \<Rightarrow> bool" where
  "engine = deeper_than 4000"

text \<open>A value in 5000 nested arrays, as a frame of 10 KB can carry it.\<close>

fun nest :: "nat \<Rightarrow> json \<Rightarrow> json" where
  "nest 0 v = v"
| "nest (Suc n) v = JArr [nest n v]"

definition abyss :: json where
  "abyss = nest 5000 JNull"

definition deep_seg :: action where
  "deep_seg = \<lparr>a_userId = JStr ''a'', a_type = JStr ''stroke'', a_data = abyss\<rparr>"

definition seg :: "string \<Rightarrow> rat \<Rightarrow> action" where
  "seg u x = \<lparr>a_userId = JStr u, a_type = JStr ''stroke'',
              a_data = JObj [(''x'', JNum x), (''y'', JNum 0)]\<rparr>"

definition alice :: conn where
  "alice = \<lparr>readyState = 1, ws_roomId = Some default_room, ws_userId = Some (Prim (JStr ''a'')),
     userId = Prim (JStr ''a''), userName = JStr ''Alice'', userColor = JStr ''#FF6B6B'',
     roomId = default_room, currentStroke = [seg ''a'' 1, seg ''a'' 2]\<rparr>"

definition bob :: conn where
  "bob = \<lparr>readyState = 1, ws_roomId = Some default_room, ws_userId = Some (Prim (JStr ''b'')),
     userId = Prim (JStr ''b''), userName = JStr ''Bob'', userColor = JStr ''#4ECDC4'',
     roomId = default_room, currentStroke = []\<rparr>"

definition roster :: "(jsv \<times> user) list" where
  "roster = [(Prim (JStr ''a''), \<lparr>u_userName = JStr ''Alice'', u_color = JStr ''#FF6B6B''\<rparr>),
             (Prim (JStr ''b''), \<lparr>u_userName = JStr ''Bob'', u_color = JStr ''#4ECDC4''\<rparr>)]"

definition studio :: room where
  "studio = \<lparr>users = roster,
             history = [[seg ''a'' 7], [seg ''b'' 8]],
             redoStack = [[seg ''a'' 9]]\<rparr>"

text \<open>Two joined users in the default room, with history and something to redo.\<close>

definition sample :: server where
  "sample = \<lparr>rooms = [default_room \<mapsto> studio], clients = [(2, alice), (3, bob)], next_ref = 0\<rparr>"

text \<open>The same with a third connection that has just opened.\<close>

definition sample_guest :: server where
  "sample_guest = on_connection sample 4"

text \<open>The same two users in a room where nothing has been drawn.\<close>

definition blank :: server where
  "blank = \<lparr>rooms = [default_room \<mapsto> \<lparr>users = roster, history = [], redoStack = []\<rparr>],
             clients = [(2, alice), (3, bob)], next_ref = 0\<rparr>"

text \<open>A session from the start: two connections open and join, the first draws two
  segments and ends the stroke.\<close>

definition session :: "event list" where
  "session =
     [Connection 2,
      Message 2 0 (Parsed (JObj [(''type'', JStr ''join''), (''userId'', JStr ''a''),
                                 (''userName'', JStr ''Alice'')])),
      Connection 3,
      Message 3 1 (Parsed (JObj [(''type'', JStr ''join''), (''userId'', JStr ''b''),
                                 (''userName'', JStr ''Bob''), (''roomId'', JStr ''default'')])),
      Message 2 0 (Parsed (msg ''startStroke'')),
      Message 2 0 (Parsed (JObj [(''type'', JStr ''draw''), (''tool'', JStr ''stroke''),
                                 (''data'', JNum 1)])),
      Message 2 0 (Parsed (JObj [(''type'', JStr ''draw''), (''tool'', JStr ''stroke''),
                                 (''data'', JNum 2)])),
      Message 2 0 (Parsed (msg ''endStroke''))]"


text \<open>A session in which the one user draws a segment whose data is nested 5000 deep
  and ends the stroke.\<close>

definition deep_session :: "event list" where
  "deep_session =
     [Connection 2,
      Message 2 0 (Parsed (JObj [(''type'', JStr ''join''), (''userId'', JStr ''a''),
                                 (''userName'', JStr ''Alice'')])),
      Message 2 0 (Parsed (msg ''startStroke'')),
      Message 2 0 (Parsed (JObj [(''type'', JStr ''draw''), (''tool'', JStr ''stroke''),
                                 (''data'', abyss)])),
      Message 2 0 (Parsed (msg ''endStroke''))]"

text \<open>The server after that session, on the engine of the examples.\<close>

definition sunk :: server where
  "sunk = run engine init_server deep_session"

section \<open>Basic facts\<close>

lemma type_of_msg: "get_prop ''type'' (msg t) = JStr t"
  by (simp add: msg_def)

lemma message_type_known:
  "get_prop ''type'' m = JStr t \<Longrightarrow> message_type m = Inr (JStr t)"
  by (cases m) simp_all

lemma message_type_Inr: "message_type m = Inr t \<Longrightarrow> t = get_prop ''type'' m"
  by (cases m) auto

lemma fst_caught: "fst (caught x) = fst x"
  by (cases x rule: caught.cases) simp_all

lemma fst_uncaught: "fst (uncaught x) = fst x"
  by (cases x rule: uncaught.cases) simp_all

lemma fst_after_broadcast: "fst (after_broadcast s sent x) = s"
  by (cases x) simp_all

lemma caught_broadcast:
  "caught (after_broadcast s [] (broadcastToRoom deep cs rid m)) =
     (s, if receivers cs rid \<noteq> [] \<and> stringify_throws deep m then [ConsoleError RangeError]
         else [Broadcast rid m (receivers cs rid)])"
  by (simp add: broadcastToRoom_def)

lemma on_message_dispatch:
  "map_of (clients s) cid = Some c \<Longrightarrow> get_prop ''type'' m = JStr t \<Longrightarrow>
   on_message deep s cid rnd (Parsed m) = caught (dispatch deep s cid c rnd m (JStr t))"
  by (simp add: on_message_def try_body_def message_type_known)

lemma room_of_absent: "rooms s rid = None \<Longrightarrow> room_of s rid = new_room"
  by (simp add: room_of_def getRoom_def)

lemma room_of_present: "rooms s rid = Some r \<Longrightarrow> room_of s rid = r"
  by (simp add: room_of_def getRoom_def)

lemma getRoom_eq: "getRoom rid (rooms s) = (room_of s rid, (rooms s)(rid \<mapsto> room_of s rid))"
  by (auto simp: room_of_def getRoom_def split: option.splits)

lemma room_of_rooms_upd [simp]: "room_of (s\<lparr>rooms := rs(rid \<mapsto> r)\<rparr>) rid = r"
  by (simp add: room_of_def getRoom_def)

lemma room_of_touch: "room_of (s\<lparr>rooms := (rooms s)(rid \<mapsto> room_of s rid)\<rparr>) r = room_of s r"
  by (simp add: room_of_def getRoom_def split: option.splits)

lemma room_of_set_conn [simp]: "room_of (set_conn cid c s) rid = room_of s rid"
  by (simp add: room_of_def set_conn_def)

lemma rooms_set_conn [simp]: "rooms (set_conn cid c s) = rooms s"
  by (simp add: set_conn_def)

lemma clients_set_conn [simp]: "clients (set_conn cid c s) = AList.update cid c (clients s)"
  by (simp add: set_conn_def)

lemma receivers_update:
  "map_of cs cid = Some c \<Longrightarrow> readyState c' = readyState c \<Longrightarrow> ws_roomId c' = ws_roomId c \<Longrightarrow>
   receivers (AList.update cid c' cs) rid = receivers cs rid"
proof (induction cs)
  case Nil
  then show ?case by simp
next
  case (Cons p cs)
  obtain i d where p: "p = (i, d)" by (cases p)
  show ?case
  proof (cases "i = cid")
    case True
    with Cons.prems p show ?thesis by (simp add: receivers_def in_room_def)
  next
    case False
    with Cons p show ?thesis by (simp add: receivers_def)
  qed
qed

lemma receivers_set:
  "set (receivers cs rid) = {i. \<exists>client. (i, client) \<in> set cs \<and> in_room client rid}"
  by (force simp: receivers_def)

lemma issuer_receives:
  "map_of cs cid = Some c \<Longrightarrow> in_room c rid \<Longrightarrow> cid \<in> set (receivers cs rid)"
  by (auto simp: receivers_set dest: map_of_SomeD)

lemma depth_nest: "depth (nest n v) = n + depth v"
  by (induction n) simp_all

lemma depth_abyss: "depth abyss = 5000"
  by (simp add: abyss_def depth_nest)

section \<open>What each case of the switch does\<close>

lemma endStroke_result:
  "caught (case_endStroke s cid c) =
     (if currentStroke c \<noteq> []
      then (set_conn cid (c\<lparr>currentStroke := []\<rparr>)
              (s\<lparr>rooms := (rooms s)(roomId c \<mapsto>
                    (room_of s (roomId c))\<lparr>history := history (room_of s (roomId c)) @ [currentStroke c],
                                            redoStack := []\<rparr>)\<rparr>), [])
      else (s\<lparr>rooms := (rooms s)(roomId c \<mapsto> room_of s (roomId c))\<rparr>, []))"
  by (simp add: case_endStroke_def getRoom_eq)

lemma undo_result:
  "caught (case_undo deep s cid c) =
     (let R = room_of s (roomId c);
          R' = (if history R \<noteq> []
                then R\<lparr>history := butlast (history R), redoStack := redoStack R @ [last (history R)]\<rparr>
                else R)
      in (s\<lparr>rooms := (rooms s)(roomId c \<mapsto> R')\<rparr>,
          if receivers (clients s) (roomId c) \<noteq> [] \<and> stringify_throws deep (HistoryMsg (history R'))
          then [ConsoleError RangeError]
          else [Broadcast (roomId c) (HistoryMsg (history R')) (receivers (clients s) (roomId c))]))"
  by (simp add: case_undo_def getRoom_eq caught_broadcast Let_def)

lemma redo_result:
  "caught (case_redo deep s cid c) =
     (let R = room_of s (roomId c);
          R' = (if redoStack R \<noteq> []
                then R\<lparr>redoStack := butlast (redoStack R), history := history R @ [last (redoStack R)]\<rparr>
                else R)
      in (s\<lparr>rooms := (rooms s)(roomId c \<mapsto> R')\<rparr>,
          if receivers (clients s) (roomId c) \<noteq> [] \<and> stringify_throws deep (HistoryMsg (history R'))
          then [ConsoleError RangeError]
          else [Broadcast (roomId c) (HistoryMsg (history R')) (receivers (clients s) (roomId c))]))"
  by (simp add: case_redo_def getRoom_eq caught_broadcast Let_def)

lemma clear_result:
  "caught (case_clear deep s cid c) =
     (s\<lparr>rooms := (rooms s)(roomId c \<mapsto> (room_of s (roomId c))\<lparr>history := [], redoStack := []\<rparr>)\<rparr>,
      [Broadcast (roomId c) (HistoryMsg []) (receivers (clients s) (roomId c))])"
  by (simp add: case_clear_def getRoom_eq caught_broadcast)

lemma draw_result:
  "map_of (clients s) cid = Some c \<Longrightarrow>
   caught (case_draw deep s cid c m) =
     (let act = \<lparr>a_userId = val_of (userId c), a_type = get_prop ''tool'' m, a_data = get_prop ''data'' m\<rparr>
      in (set_conn cid (c\<lparr>currentStroke := currentStroke c @ [act]\<rparr>)
            (s\<lparr>rooms := (rooms s)(roomId c \<mapsto> room_of s (roomId c))\<rparr>),
          if receivers (clients s) (roomId c) \<noteq> [] \<and> stringify_throws deep (DrawMsg act)
          then [ConsoleError RangeError]
          else [Broadcast (roomId c) (DrawMsg act) (receivers (clients s) (roomId c))]))"
  by (simp add: case_draw_def getRoom_eq caught_broadcast receivers_update Let_def)

lemma sample_clients:
  "map_of (clients sample) 2 = Some alice" "map_of (clients sample) 3 = Some bob"
  by (simp_all add: sample_def)

lemma sample_room: "room_of sample default_room = studio"
  by (simp add: sample_def room_of_def getRoom_def)

lemma sample_rooms_of: "roomId alice = default_room" "roomId bob = default_room"
  by (simp_all add: alice_def bob_def)

lemma sample_in_room: "in_room alice default_room" "in_room bob default_room"
  by (simp_all add: in_room_def alice_def bob_def)

lemma sample_receivers: "receivers (clients sample) default_room = [2, 3]"
  by (simp add: sample_def receivers_def in_room_def alice_def bob_def)

lemma engine_history:
  "\<not> engine (HistoryMsg [[seg ''a'' 7]])"
  "\<not> engine (HistoryMsg [[seg ''a'' 7], [seg ''b'' 8], [seg ''a'' 9]])"
  by (simp_all add: engine_def deeper_than_def action_values_def seg_def)

section \<open>Completing a stroke\<close>

text \<open>
  C1. An \<^verbatim>\<open>endStroke\<close> message on a connection whose accumulator is non-empty appends
  exactly one entry to the history of the connection's room, the accumulated segments in
  their order, empties the room's redo stack and empties the accumulator. When the
  accumulator is empty the room is as before: nothing is committed, history and redo
  stack are unchanged. No other room changes either way.
\<close>

theorem endStroke_commits_accumulator:
  assumes "map_of (clients s) cid = Some c"
    and "get_prop ''type'' m = JStr ''endStroke''"
    and "on_message deep s cid rnd (Parsed m) = (s', out)"
  shows "room_of s' (roomId c) =
           (if currentStroke c \<noteq> []
            then (room_of s (roomId c))\<lparr>history := history (room_of s (roomId c)) @ [currentStroke c],
                                         redoStack := []\<rparr>
            else room_of s (roomId c))
         \<and> map_of (clients s') cid = Some (c\<lparr>currentStroke := []\<rparr>)
         \<and> rooms s' = (rooms s)(roomId c \<mapsto> room_of s' (roomId c))"
proof -
  from assms have e: "caught (case_endStroke s cid c) = (s', out)"
    by (simp add: on_message_dispatch dispatch_def)
  show ?thesis
  proof (cases "currentStroke c = []")
    case True
    with e assms(1) show ?thesis
      by (auto simp: endStroke_result)
  next
    case False
    with e show ?thesis
      by (auto simp: endStroke_result update_conv')
  qed
qed

theorem endStroke_commits_accumulator_witness:
  "map_of (clients sample) 2 = Some alice
   \<and> history (room_of (fst (on_message engine sample 2 0 (Parsed (msg ''endStroke'')))) default_room)
       = [[seg ''a'' 7], [seg ''b'' 8], [seg ''a'' 1, seg ''a'' 2]]
   \<and> redoStack (room_of (fst (on_message engine sample 2 0 (Parsed (msg ''endStroke'')))) default_room) = []
   \<and> map_of (clients sample) 3 = Some bob
   \<and> room_of (fst (on_message engine sample 3 0 (Parsed (msg ''endStroke'')))) default_room = studio"
proof -
  note A = endStroke_commits_accumulator [OF sample_clients(1) type_of_msg surjective_pairing]
  note B = endStroke_commits_accumulator [OF sample_clients(2) type_of_msg surjective_pairing]
  from A B sample_room sample_clients show ?thesis
    by (simp add: alice_def bob_def studio_def)
qed

section \<open>Undo and redo\<close>

lemma nothing_undone_init: "nothing_undone init_server"
  by (simp add: nothing_undone_def init_server_def)

lemma nothing_undone_room_of: "nothing_undone s \<Longrightarrow> redoStack (room_of s rid) = []"
  by (cases "rooms s rid") (auto simp: nothing_undone_def room_of_absent room_of_present new_room_def)

lemma nothing_undone_upd:
  "nothing_undone s \<Longrightarrow> rooms s' = (rooms s)(rid \<mapsto> r) \<Longrightarrow> redoStack r = [] \<Longrightarrow> nothing_undone s'"
  by (simp add: nothing_undone_def)

lemma nothing_undone_same: "nothing_undone s \<Longrightarrow> rooms s' = rooms s \<Longrightarrow> nothing_undone s'"
  by (simp add: nothing_undone_def)

lemma join_rooms:
  "rooms (fst (case_join deep s cid c rnd m)) =
     (let rid = (if truthy (get_prop ''roomId'' m)
                 then to_jsv (Suc (next_ref s)) (get_prop ''roomId'' m) else default_room)
      in (rooms s)(rid \<mapsto> (room_of s rid)\<lparr>users :=
            AList.update (to_jsv (next_ref s) (get_prop ''userId'' m))
              \<lparr>u_userName = get_prop ''userName'' m, u_color = assignColor rnd\<rparr>
              (users (room_of s rid))\<rparr>))"
  by (simp add: case_join_def getRoom_eq Let_def fst_after_broadcast)

lemma nothing_undone_join:
  "nothing_undone s \<Longrightarrow> nothing_undone (fst (case_join deep s cid c rnd m))"
  by (rule nothing_undone_upd [OF _ join_rooms [unfolded Let_def]]) (simp_all add: nothing_undone_room_of)

lemma nothing_undone_startStroke:
  "nothing_undone s \<Longrightarrow> nothing_undone (fst (case_startStroke s cid c))"
  by (rule nothing_undone_same) (simp_all add: case_startStroke_def)

lemma nothing_undone_draw:
  "nothing_undone s \<Longrightarrow> nothing_undone (fst (case_draw deep s cid c m))"
  by (rule nothing_undone_upd [where rid = "roomId c" and r = "room_of s (roomId c)"])
     (simp_all add: case_draw_def getRoom_eq Let_def fst_after_broadcast nothing_undone_room_of)

lemma nothing_undone_endStroke:
  "nothing_undone s \<Longrightarrow> nothing_undone (fst (case_endStroke s cid c))"
  using nothing_undone_room_of [of s "roomId c"]
  by (auto simp: case_endStroke_def getRoom_eq nothing_undone_def)

lemma nothing_undone_cursor:
  "nothing_undone s \<Longrightarrow> nothing_undone (fst (case_cursor deep s cid c m))"
  by (simp add: case_cursor_def fst_after_broadcast)

lemma nothing_undone_redo:
  "nothing_undone s \<Longrightarrow> nothing_undone (fst (case_redo deep s cid c))"
  by (rule nothing_undone_upd [where rid = "roomId c" and r = "room_of s (roomId c)"])
     (simp_all add: case_redo_def getRoom_eq Let_def fst_after_broadcast nothing_undone_room_of)

lemma nothing_undone_clear:
  "nothing_undone s \<Longrightarrow> nothing_undone (fst (case_clear deep s cid c))"
  by (rule nothing_undone_upd [where rid = "roomId c"
        and r = "(room_of s (roomId c))\<lparr>history := [], redoStack := []\<rparr>"])
     (simp_all add: case_clear_def getRoom_eq fst_after_broadcast)

lemma nothing_undone_dispatch:
  "nothing_undone s \<Longrightarrow> t \<noteq> JStr ''undo'' \<Longrightarrow> nothing_undone (fst (dispatch deep s cid c rnd m t))"
  by (simp add: dispatch_def nothing_undone_join nothing_undone_startStroke nothing_undone_draw
      nothing_undone_endStroke nothing_undone_cursor nothing_undone_redo nothing_undone_clear)

lemma nothing_undone_on_message:
  assumes "nothing_undone s" and "\<not> is_undo (Message cid rnd inb)"
  shows "nothing_undone (fst (on_message deep s cid rnd inb))"
proof (cases "map_of (clients s) cid")
  case None
  with assms(1) show ?thesis by (simp add: on_message_def)
next
  case (Some c)
  show ?thesis
  proof (cases inb)
    case Unparseable
    with Some assms(1) show ?thesis by (simp add: on_message_def try_body_def)
  next
    case (Parsed m)
    show ?thesis
    proof (cases "message_type m")
      case (Inl e)
      with Some Parsed assms(1) show ?thesis by (simp add: on_message_def try_body_def)
    next
      case (Inr t)
      with assms(2) Parsed have "t \<noteq> JStr ''undo''"
        by (auto dest: message_type_Inr)
      with Some Parsed Inr assms(1) show ?thesis
        by (simp add: on_message_def try_body_def fst_caught nothing_undone_dispatch)
    qed
  qed
qed

lemma nothing_undone_on_connection: "nothing_undone s \<Longrightarrow> nothing_undone (on_connection s cid)"
  by (simp add: on_connection_def nothing_undone_def split: option.splits)

lemma nothing_undone_on_close: "nothing_undone s \<Longrightarrow> nothing_undone (fst (on_close deep s cid))"
proof (cases "map_of (clients s) cid")
  case None
  assume "nothing_undone s"
  with None show ?thesis by (simp add: on_close_def)
next
  case (Some c)
  assume n: "nothing_undone s"
  show ?thesis
  proof (cases "truthy (val_of (userId c)) \<and> truthy (val_of (roomId c))")
    case True
    have "rooms (fst (on_close deep s cid)) =
        (rooms s)(roomId c \<mapsto> (room_of s (roomId c))\<lparr>users := AList.delete (userId c) (users (room_of s (roomId c)))\<rparr>)"
      using Some True
      by (simp add: on_close_def Let_def getRoom_def room_of_def fst_uncaught fst_after_broadcast
          split: option.splits)
    from nothing_undone_upd [OF n this] n show ?thesis by (simp add: nothing_undone_room_of)
  next
    case False
    with Some have "rooms (fst (on_close deep s cid)) = rooms s"
      by (auto simp add: on_close_def Let_def)
    with n show ?thesis by (rule nothing_undone_same)
  qed
qed

lemma nothing_undone_step: "nothing_undone s \<Longrightarrow> \<not> is_undo e \<Longrightarrow> nothing_undone (step deep s e)"
  by (cases e) (simp_all add: nothing_undone_on_message nothing_undone_on_connection nothing_undone_on_close)

lemma nothing_undone_run:
  "nothing_undone s \<Longrightarrow> \<not> list_ex is_undo es \<Longrightarrow> nothing_undone (run deep s es)"
  by (induction es arbitrary: s) (simp_all add: run_def nothing_undone_step)

lemma undo_redo_room:
  assumes "map_of (clients s) cu = Some u" and "map_of (clients s) cr = Some r"
    and "roomId u = roomId r"
    and "get_prop ''type'' mu = JStr ''undo''" and "get_prop ''type'' mr = JStr ''redo''"
    and "redoStack (room_of s (roomId u)) = [] \<or> history (room_of s (roomId u)) \<noteq> []"
  shows "room_of (fst (on_message deep (fst (on_message deep s cu ru (Parsed mu))) cr rr (Parsed mr)))
           (roomId u) = room_of s (roomId u)"
proof -
  let ?s1 = "fst (on_message deep s cu ru (Parsed mu))"
  have s1: "?s1 = fst (caught (case_undo deep s cu u))"
    using assms(1,4) by (simp add: on_message_dispatch dispatch_def)
  then have c1: "map_of (clients ?s1) cr = Some r"
    using assms(2) by (simp add: undo_result Let_def)
  have "fst (on_message deep ?s1 cr rr (Parsed mr)) = fst (caught (case_redo deep ?s1 cr r))"
    using c1 assms(5) by (simp add: on_message_dispatch dispatch_def)
  with s1 assms(3,6) show ?thesis
    by (auto simp: undo_result redo_result Let_def)
qed

lemma session_clients:
  "clients (run engine init_server session) = [(2, alice\<lparr>currentStroke := []\<rparr>), (3, bob)]"
  by (simp add: run_def session_def init_server_def on_connection_def on_message_def try_body_def
      msg_def dispatch_def case_join_def case_startStroke_def case_draw_def case_endStroke_def
      getRoom_def set_conn_def init_conn_def default_room_def new_room_def assignColor_def colors_def
      broadcastToRoom_def Let_def alice_def bob_def engine_def deeper_than_def action_values_def receivers_def in_room_def)

lemma session_room:
  "room_of (run engine init_server session) default_room =
     \<lparr>users = roster,
      history = [[\<lparr>a_userId = JStr ''a'', a_type = JStr ''stroke'', a_data = JNum 1\<rparr>,
                  \<lparr>a_userId = JStr ''a'', a_type = JStr ''stroke'', a_data = JNum 2\<rparr>]],
      redoStack = []\<rparr>"
  by (simp add: run_def session_def init_server_def on_connection_def on_message_def try_body_def
      msg_def dispatch_def case_join_def case_startStroke_def case_draw_def case_endStroke_def
      getRoom_def set_conn_def init_conn_def default_room_def new_room_def assignColor_def colors_def
      broadcastToRoom_def Let_def room_of_def roster_def engine_def deeper_than_def action_values_def receivers_def in_room_def)

lemma session_no_undo: "\<not> list_ex is_undo session"
  by (simp add: session_def msg_def)

text \<open>
  C2. Take any state the server reaches from its start through events none of which is
  an undo (connections, joins, segments, stroke commits, and so on), on any engine. In
  that state an \<^verbatim>\<open>undo\<close> followed at once by a \<^verbatim>\<open>redo\<close>, sent by connections of the same
  room, leaves the room's history equal to its value before the undo.
\<close>

theorem undo_then_redo_restores_history:
  assumes "\<not> list_ex is_undo es"
    and "map_of (clients (run deep init_server es)) cu = Some u"
    and "map_of (clients (run deep init_server es)) cr = Some r"
    and "roomId u = roomId r"
    and "get_prop ''type'' mu = JStr ''undo''"
    and "get_prop ''type'' mr = JStr ''redo''"
  shows "history (room_of (fst (on_message deep (fst (on_message deep (run deep init_server es) cu ru (Parsed mu)))
                                 cr rr (Parsed mr))) (roomId u))
           = history (room_of (run deep init_server es) (roomId u))"
proof -
  have "nothing_undone (run deep init_server es)"
    using nothing_undone_init assms(1) by (rule nothing_undone_run)
  then have "redoStack (room_of (run deep init_server es) (roomId u)) = []"
    by (rule nothing_undone_room_of)
  then show ?thesis
    using undo_redo_room [OF assms(2-6), of deep ru rr] by simp
qed

theorem undo_then_redo_restores_history_witness:
  "\<not> list_ex is_undo session
   \<and> map_of (clients (run engine init_server session)) 2 = Some (alice\<lparr>currentStroke := []\<rparr>)
   \<and> map_of (clients (run engine init_server session)) 3 = Some bob
   \<and> history (room_of (fst (on_message engine (fst (on_message engine (run engine init_server session) 2 0
                                               (Parsed (msg ''undo''))))
                                 3 0 (Parsed (msg ''redo'')))) default_room)
       = [[\<lparr>a_userId = JStr ''a'', a_type = JStr ''stroke'', a_data = JNum 1\<rparr>,
           \<lparr>a_userId = JStr ''a'', a_type = JStr ''stroke'', a_data = JNum 2\<rparr>]]"
proof -
  have a: "map_of (clients (run engine init_server session)) 2 = Some (alice\<lparr>currentStroke := []\<rparr>)"
    and b: "map_of (clients (run engine init_server session)) 3 = Some bob"
    by (simp_all add: session_clients)
  have ab: "roomId (alice\<lparr>currentStroke := []\<rparr>) = roomId bob"
    by (simp add: alice_def bob_def)
  have d: "roomId (alice\<lparr>currentStroke := []\<rparr>) = default_room"
    by (simp add: alice_def)
  from undo_then_redo_restores_history [OF session_no_undo a b ab type_of_msg type_of_msg, of 0 0]
    session_no_undo a b d show ?thesis
    by (simp add: session_room)
qed

section \<open>Broadcasts\<close>

lemma blank_clients:
  "map_of (clients blank) 2 = Some alice" "map_of (clients blank) 3 = Some bob"
  by (simp_all add: blank_def)

lemma blank_room: "room_of blank default_room = \<lparr>users = roster, history = [], redoStack = []\<rparr>"
  by (simp add: blank_def room_of_def getRoom_def)

lemma blank_receivers: "receivers (clients blank) default_room = [2, 3]"
  by (simp add: blank_def receivers_def in_room_def alice_def bob_def)

lemma history_effects:
  assumes "map_of (clients s) cid = Some c"
    and "get_prop ''type'' m = JStr t"
    and "t = ''undo'' \<or> t = ''redo'' \<or> t = ''clear''"
    and "on_message deep s cid rnd (Parsed m) = (s', out)"
  shows "out = (if receivers (clients s) (roomId c) \<noteq> []
                   \<and> stringify_throws deep (HistoryMsg (history (room_of s' (roomId c))))
                then [ConsoleError RangeError]
                else [Broadcast (roomId c) (HistoryMsg (history (room_of s' (roomId c))))
                        (receivers (clients s) (roomId c))])"
proof -
  from assms(1,2,4) have d: "caught (dispatch deep s cid c rnd m (JStr t)) = (s', out)"
    by (simp add: on_message_dispatch)
  from assms(3) show ?thesis
  proof (elim disjE)
    assume "t = ''undo''"
    with d show ?thesis by (auto simp: dispatch_def undo_result Let_def)
  next
    assume "t = ''redo''"
    with d show ?thesis by (auto simp: dispatch_def redo_result Let_def)
  next
    assume "t = ''clear''"
    with d show ?thesis by (auto simp: dispatch_def clear_result)
  qed
qed

text \<open>
  A stroke commit changes the history and is followed by no broadcast at all, although
  two open connections are in the room: the claim C3 as stated fails for commits.
\<close>

theorem commit_without_broadcast:
  "history (room_of (fst (on_message engine sample 2 0 (Parsed (msg ''endStroke'')))) default_room)
     \<noteq> history (room_of sample default_room)
   \<and> receivers (clients sample) default_room = [2, 3]
   \<and> snd (on_message engine sample 2 0 (Parsed (msg ''endStroke''))) = []"
  by (simp add: on_message_dispatch [OF sample_clients(1) type_of_msg] dispatch_def
      endStroke_result sample_room sample_receivers alice_def studio_def)

text \<open>
  C3, as amended. An \<^verbatim>\<open>undo\<close>, a \<^verbatim>\<open>redo\<close> and a \<^verbatim>\<open>clear\<close> are each followed at once by
  one broadcast of the room's history, as it is after the command, to the open
  connections of the room, and by nothing else; the one exception is a history that
  \<^verbatim>\<open>JSON.stringify\<close> cannot serialise while the room has an open connection: then
  nothing is sent and the \<^verbatim>\<open>RangeError\<close> is logged. A stroke commit (\<^verbatim>\<open>endStroke\<close>) is
  followed by no broadcast.
\<close>

theorem history_broadcast_after_undo_redo_clear:
  assumes "map_of (clients s) cid = Some c"
    and "get_prop ''type'' m = JStr t"
    and "t = ''undo'' \<or> t = ''redo'' \<or> t = ''clear'' \<or> t = ''endStroke''"
    and "on_message deep s cid rnd (Parsed m) = (s', out)"
  shows "out = (if t = ''endStroke'' then []
                else if receivers (clients s) (roomId c) \<noteq> []
                        \<and> stringify_throws deep (HistoryMsg (history (room_of s' (roomId c))))
                then [ConsoleError RangeError]
                else [Broadcast (roomId c) (HistoryMsg (history (room_of s' (roomId c))))
                        (receivers (clients s) (roomId c))])"
proof (cases "t = ''endStroke''")
  case True
  with assms(1,2,4) show ?thesis
    by (auto simp: on_message_dispatch dispatch_def endStroke_result split: if_splits)
next
  case False
  with assms(3) have "t = ''undo'' \<or> t = ''redo'' \<or> t = ''clear''" by simp
  from history_effects [OF assms(1,2) this assms(4)] False show ?thesis by simp
qed

theorem history_broadcast_after_undo_redo_clear_witness:
  "map_of (clients sample) 3 = Some bob
   \<and> snd (on_message engine sample 3 0 (Parsed (msg ''undo'')))
       = [Broadcast default_room (HistoryMsg [[seg ''a'' 7]]) [2, 3]]
   \<and> snd (on_message engine sample 3 0 (Parsed (msg ''redo'')))
       = [Broadcast default_room (HistoryMsg [[seg ''a'' 7], [seg ''b'' 8], [seg ''a'' 9]]) [2, 3]]
   \<and> snd (on_message engine sample 3 0 (Parsed (msg ''clear'')))
       = [Broadcast default_room (HistoryMsg []) [2, 3]]
   \<and> snd (on_message engine sample 2 0 (Parsed (msg ''endStroke''))) = []"
proof -
  have rb: "roomId bob = default_room" by (simp add: bob_def)
  have u: "history (room_of (fst (on_message engine sample 3 0 (Parsed (msg ''undo'')))) default_room)
             = [[seg ''a'' 7]]"
    unfolding on_message_dispatch [OF sample_clients(2) type_of_msg]
    by (simp add: dispatch_def undo_result Let_def rb sample_room studio_def)
  have r: "history (room_of (fst (on_message engine sample 3 0 (Parsed (msg ''redo'')))) default_room)
             = [[seg ''a'' 7], [seg ''b'' 8], [seg ''a'' 9]]"
    unfolding on_message_dispatch [OF sample_clients(2) type_of_msg]
    by (simp add: dispatch_def redo_result Let_def rb sample_room studio_def)
  have c: "history (room_of (fst (on_message engine sample 3 0 (Parsed (msg ''clear'')))) default_room) = []"
    unfolding on_message_dispatch [OF sample_clients(2) type_of_msg]
    by (simp add: dispatch_def clear_result rb)
  note T = history_broadcast_after_undo_redo_clear [OF _ type_of_msg _ surjective_pairing]
  from T [OF sample_clients(2), of "''undo''" engine 0] T [OF sample_clients(2), of "''redo''" engine 0]
    T [OF sample_clients(2), of "''clear''" engine 0] T [OF sample_clients(1), of "''endStroke''" engine 0]
    sample_clients(2)
  show ?thesis
    by (simp add: u r c rb sample_receivers engine_history)
qed

text \<open>
  The server sends a live segment to every open connection of the room, the one it came
  from included: the claim C4 as stated fails at the server.
\<close>

theorem draw_is_sent_back_to_its_origin:
  "map_of (clients sample) 2 = Some alice
   \<and> snd (on_message engine sample 2 0
        (Parsed (JObj [(''type'', JStr ''draw''), (''tool'', JStr ''stroke''), (''data'', JNum 3)])))
       = [Broadcast default_room
            (DrawMsg \<lparr>a_userId = JStr ''a'', a_type = JStr ''stroke'', a_data = JNum 3\<rparr>) [2, 3]]"
proof -
  have t: "get_prop ''type'' (JObj [(''type'', JStr ''draw''), (''tool'', JStr ''stroke''), (''data'', JNum 3)])
             = JStr ''draw''"
    by simp
  have a: "val_of (userId alice) = JStr ''a''" by (simp add: alice_def)
  show ?thesis
    unfolding on_message_dispatch [OF sample_clients(1) t]
    by (simp add: dispatch_def draw_result [OF sample_clients(1)] Let_def sample_clients sample_rooms_of
        sample_receivers a engine_def deeper_than_def action_values_def)
qed

text \<open>
  C4, as amended. For a \<^verbatim>\<open>draw\<close> message the server makes one broadcast of the segment
  to the room of the sender; it goes to every open connection whose room is that room,
  and to the sender itself when the sender is one of them. The one exception is a
  segment that \<^verbatim>\<open>JSON.stringify\<close> cannot serialise while the room has an open
  connection: then nothing is sent and the \<^verbatim>\<open>RangeError\<close> is logged. The echo is
  suppressed in the browser: a client goes on to draw the segment exactly when the
  segment's user id is not its own.
\<close>

theorem draw_fan_out_and_client_filter:
  assumes "map_of (clients s) cid = Some c"
    and "get_prop ''type'' m = JStr ''draw''"
    and "on_message deep s cid rnd (Parsed m) = (s', out)"
    and "act = \<lparr>a_userId = val_of (userId c), a_type = get_prop ''tool'' m, a_data = get_prop ''data'' m\<rparr>"
  shows "out = (if receivers (clients s) (roomId c) \<noteq> [] \<and> stringify_throws deep (DrawMsg act)
                then [ConsoleError RangeError]
                else [Broadcast (roomId c) (DrawMsg act) (receivers (clients s) (roomId c))])
         \<and> set (receivers (clients s) (roomId c))
             = {i. \<exists>client. (i, client) \<in> set (clients s) \<and> in_room client (roomId c)}
         \<and> (in_room c (roomId c) \<longrightarrow> cid \<in> set (receivers (clients s) (roomId c)))
         \<and> passes_echo_filter me (DrawMsg act) = (val_of (userId c) \<noteq> JStr me)"
proof -
  from assms(1-3) have "caught (case_draw deep s cid c m) = (s', out)"
    by (simp add: on_message_dispatch dispatch_def)
  with assms(1,4)
  have "out = (if receivers (clients s) (roomId c) \<noteq> [] \<and> stringify_throws deep (DrawMsg act)
               then [ConsoleError RangeError]
               else [Broadcast (roomId c) (DrawMsg act) (receivers (clients s) (roomId c))])"
    by (auto simp: draw_result Let_def)
  moreover have "in_room c (roomId c) \<longrightarrow> cid \<in> set (receivers (clients s) (roomId c))"
    using assms(1) by (simp add: issuer_receives)
  moreover have "passes_echo_filter me (DrawMsg act) = (val_of (userId c) \<noteq> JStr me)"
    using assms(4) by simp
  ultimately show ?thesis by (simp add: receivers_set)
qed

theorem draw_fan_out_and_client_filter_witness:
  "map_of (clients sample) 2 = Some alice
   \<and> in_room alice default_room
   \<and> snd (on_message engine sample 2 0
        (Parsed (JObj [(''type'', JStr ''draw''), (''tool'', JStr ''stroke''), (''data'', JNum 3)])))
       = [Broadcast default_room
            (DrawMsg \<lparr>a_userId = JStr ''a'', a_type = JStr ''stroke'', a_data = JNum 3\<rparr>) [2, 3]]
   \<and> 2 \<in> set (receivers (clients sample) default_room)
   \<and> \<not> passes_echo_filter ''a''
         (DrawMsg \<lparr>a_userId = JStr ''a'', a_type = JStr ''stroke'', a_data = JNum 3\<rparr>)
   \<and> passes_echo_filter ''b''
         (DrawMsg \<lparr>a_userId = JStr ''a'', a_type = JStr ''stroke'', a_data = JNum 3\<rparr>)
   \<and> snd (on_message engine sample 2 0
        (Parsed (JObj [(''type'', JStr ''draw''), (''tool'', JStr ''stroke''), (''data'', abyss)])))
       = [ConsoleError RangeError]"
proof -
  have t: "get_prop ''type'' (JObj [(''type'', JStr ''draw''), (''tool'', JStr ''stroke''), (''data'', d)])
             = JStr ''draw''" for d
    by simp
  have a: "\<lparr>a_userId = JStr ''a'', a_type = JStr ''stroke'', a_data = d\<rparr>
             = \<lparr>a_userId = val_of (userId alice),
                a_type = get_prop ''tool'' (JObj [(''type'', JStr ''draw''), (''tool'', JStr ''stroke''), (''data'', d)]),
                a_data = get_prop ''data'' (JObj [(''type'', JStr ''draw''), (''tool'', JStr ''stroke''), (''data'', d)])\<rparr>"
    for d
    by (simp add: alice_def)
  have plain: "\<not> engine (DrawMsg \<lparr>a_userId = JStr ''a'', a_type = JStr ''stroke'', a_data = JNum 3\<rparr>)"
    by (simp add: engine_def deeper_than_def action_values_def)
  have sunk: "engine (DrawMsg \<lparr>a_userId = JStr ''a'', a_type = JStr ''stroke'', a_data = abyss\<rparr>)"
    by (simp add: engine_def deeper_than_def action_values_def depth_abyss)
  note T = draw_fan_out_and_client_filter [OF sample_clients(1) t surjective_pairing a]
  from T [of engine 0 "JNum 3" "''a''"] T [of engine 0 "JNum 3" "''b''"] T [of engine 0 abyss "''a''"]
    sample_clients(1) sample_in_room(1)
  show ?thesis
    by (simp add: sample_rooms_of sample_receivers plain sunk)
qed

section \<open>Clearing the room\<close>

text \<open>
  C5. A \<^verbatim>\<open>clear\<close> message, whatever the history and the redo stack of the sender's room
  are, leaves both empty and broadcasts the empty history to the room: to every open
  connection whose room it is, the sender included when it is one of them.
\<close>

theorem clear_empties_room_and_tells_everyone:
  assumes "map_of (clients s) cid = Some c"
    and "get_prop ''type'' m = JStr ''clear''"
    and "on_message deep s cid rnd (Parsed m) = (s', out)"
  shows "history (room_of s' (roomId c)) = []
         \<and> redoStack (room_of s' (roomId c)) = []
         \<and> out = [Broadcast (roomId c) (HistoryMsg []) (receivers (clients s) (roomId c))]
         \<and> set (receivers (clients s) (roomId c))
             = {i. \<exists>client. (i, client) \<in> set (clients s) \<and> in_room client (roomId c)}
         \<and> (in_room c (roomId c) \<longrightarrow> cid \<in> set (receivers (clients s) (roomId c)))"
proof -
  from assms have "caught (case_clear deep s cid c) = (s', out)"
    by (simp add: on_message_dispatch dispatch_def)
  then have "history (room_of s' (roomId c)) = []" "redoStack (room_of s' (roomId c)) = []"
    "out = [Broadcast (roomId c) (HistoryMsg []) (receivers (clients s) (roomId c))]"
    by (auto simp: clear_result)
  moreover have "in_room c (roomId c) \<longrightarrow> cid \<in> set (receivers (clients s) (roomId c))"
    using assms(1) by (simp add: issuer_receives)
  ultimately show ?thesis by (simp add: receivers_set)
qed

theorem clear_empties_room_and_tells_everyone_witness:
  "map_of (clients sample) 3 = Some bob
   \<and> in_room bob default_room
   \<and> history (room_of sample default_room) = [[seg ''a'' 7], [seg ''b'' 8]]
   \<and> redoStack (room_of sample default_room) = [[seg ''a'' 9]]
   \<and> history (room_of (fst (on_message engine sample 3 0 (Parsed (msg ''clear'')))) default_room) = []
   \<and> redoStack (room_of (fst (on_message engine sample 3 0 (Parsed (msg ''clear'')))) default_room) = []
   \<and> snd (on_message engine sample 3 0 (Parsed (msg ''clear'')))
       = [Broadcast default_room (HistoryMsg []) [2, 3]]
   \<and> 3 \<in> set (receivers (clients sample) default_room)"
proof -
  note T = clear_empties_room_and_tells_everyone
             [OF sample_clients(2) type_of_msg surjective_pairing, of engine 0]
  from T have state:
    "history (room_of (fst (on_message engine sample 3 0 (Parsed (msg ''clear'')))) default_room) = []"
    "redoStack (room_of (fst (on_message engine sample 3 0 (Parsed (msg ''clear'')))) default_room) = []"
    by (simp_all add: sample_rooms_of)
  from T have sent: "snd (on_message engine sample 3 0 (Parsed (msg ''clear'')))
      = [Broadcast default_room (HistoryMsg []) [2, 3]]"
    by (simp add: sample_rooms_of sample_receivers)
  from T [unfolded sample_rooms_of] sample_in_room(2)
  have issuer: "3 \<in> set (receivers (clients sample) default_room)"
    by blast
  from state sent issuer sample_clients(2) sample_in_room(2) show ?thesis
    by (simp add: sample_room studio_def)
qed

section \<open>A history that does not serialise\<close>

lemma sunk_clients: "clients sunk = [(2, alice\<lparr>currentStroke := []\<rparr>)]"
  by (simp add: sunk_def run_def deep_session_def init_server_def on_connection_def on_message_def
      try_body_def msg_def dispatch_def case_join_def case_startStroke_def case_draw_def
      case_endStroke_def getRoom_def set_conn_def init_conn_def default_room_def new_room_def
      assignColor_def colors_def broadcastToRoom_def Let_def alice_def engine_def deeper_than_def
      action_values_def receivers_def in_room_def depth_abyss)

lemma sunk_room:
  "room_of sunk default_room =
     \<lparr>users = [(Prim (JStr ''a''), \<lparr>u_userName = JStr ''Alice'', u_color = JStr ''#FF6B6B''\<rparr>)],
      history = [[deep_seg]], redoStack = []\<rparr>"
  by (simp add: sunk_def run_def deep_session_def init_server_def on_connection_def on_message_def
      try_body_def msg_def dispatch_def case_join_def case_startStroke_def case_draw_def
      case_endStroke_def getRoom_def set_conn_def init_conn_def default_room_def new_room_def
      assignColor_def colors_def broadcastToRoom_def Let_def room_of_def engine_def deeper_than_def
      action_values_def receivers_def in_room_def depth_abyss deep_seg_def)

lemma sunk_alice: "map_of (clients sunk) 2 = Some (alice\<lparr>currentStroke := []\<rparr>)"
  by (simp add: sunk_clients)

lemma sunk_receivers: "receivers (clients sunk) default_room = [2]"
  by (simp add: sunk_clients receivers_def in_room_def alice_def)

lemma engine_sunk: "engine (HistoryMsg [[deep_seg]])"
  by (simp add: engine_def deeper_than_def action_values_def deep_seg_def depth_abyss)

section \<open>Undo and redo with nothing to move\<close>

text \<open>
  After a stroke with a segment nested 5000 deep has been committed, a \<^verbatim>\<open>redo\<close> with
  nothing to redo leaves the room as it is, and then fails to serialise the history:
  the error is caught and logged. The claim C6 as stated, that no error is raised, fails.
\<close>

theorem redo_on_empty_stack_logs_error:
  "map_of (clients sunk) 2 = Some (alice\<lparr>currentStroke := []\<rparr>)
   \<and> redoStack (room_of sunk default_room) = []
   \<and> history (room_of sunk default_room) = [[deep_seg]]
   \<and> room_of (fst (on_message engine sunk 2 0 (Parsed (msg ''redo'')))) default_room
       = room_of sunk default_room
   \<and> snd (on_message engine sunk 2 0 (Parsed (msg ''redo''))) = [ConsoleError RangeError]"
proof -
  have r: "roomId (alice\<lparr>currentStroke := []\<rparr>) = default_room" by (simp add: alice_def)
  have "on_message engine sunk 2 0 (Parsed (msg ''redo''))
          = caught (case_redo engine sunk 2 (alice\<lparr>currentStroke := []\<rparr>))"
    by (simp add: on_message_dispatch [OF sunk_alice type_of_msg] dispatch_def)
  then show ?thesis
    by (simp add: redo_result Let_def r sunk_room sunk_receivers sunk_alice engine_sunk)
qed

text \<open>
  C6, as amended. An \<^verbatim>\<open>undo\<close> when the room's history is empty, and a \<^verbatim>\<open>redo\<close> when the
  room's redo stack is empty, change nothing in the state: every room keeps its history,
  its redo stack and its users, and the connections are as before. The unchanged history
  is broadcast to the room. The undo raises no error. The redo raises none either,
  unless the room has an open connection and \<^verbatim>\<open>JSON.stringify\<close> throws on the history:
  then nothing is sent and the \<^verbatim>\<open>RangeError\<close> is caught and logged.
\<close>

theorem undo_redo_on_empty_stack_keeps_state:
  assumes "map_of (clients s) cid = Some c"
    and "get_prop ''type'' m = JStr t"
    and "t = ''undo'' \<and> history (room_of s (roomId c)) = []
         \<or> t = ''redo'' \<and> redoStack (room_of s (roomId c)) = []"
    and "on_message deep s cid rnd (Parsed m) = (s', out)"
  shows "(\<forall>r. room_of s' r = room_of s r)
         \<and> clients s' = clients s
         \<and> out = (if t = ''redo'' \<and> receivers (clients s) (roomId c) \<noteq> []
                      \<and> stringify_throws deep (HistoryMsg (history (room_of s (roomId c))))
                   then [ConsoleError RangeError]
                   else [Broadcast (roomId c) (HistoryMsg (history (room_of s (roomId c))))
                           (receivers (clients s) (roomId c))])"
proof -
  from assms(1,2,4) have d: "caught (dispatch deep s cid c rnd m (JStr t)) = (s', out)"
    by (simp add: on_message_dispatch)
  from assms(3) show ?thesis
  proof
    assume "t = ''undo'' \<and> history (room_of s (roomId c)) = []"
    with d show ?thesis by (auto simp: dispatch_def undo_result Let_def room_of_touch)
  next
    assume "t = ''redo'' \<and> redoStack (room_of s (roomId c)) = []"
    with d show ?thesis by (auto simp: dispatch_def redo_result Let_def room_of_touch)
  qed
qed

theorem undo_redo_on_empty_stack_keeps_state_witness:
  "map_of (clients blank) 3 = Some bob
   \<and> history (room_of blank (roomId bob)) = []
   \<and> redoStack (room_of blank (roomId bob)) = []
   \<and> room_of (fst (on_message engine blank 3 0 (Parsed (msg ''undo'')))) default_room
       = room_of blank default_room
   \<and> clients (fst (on_message engine blank 3 0 (Parsed (msg ''undo'')))) = clients blank
   \<and> snd (on_message engine blank 3 0 (Parsed (msg ''undo'')))
       = [Broadcast default_room (HistoryMsg []) [2, 3]]
   \<and> room_of (fst (on_message engine blank 3 0 (Parsed (msg ''redo'')))) default_room
       = room_of blank default_room
   \<and> clients (fst (on_message engine blank 3 0 (Parsed (msg ''redo'')))) = clients blank
   \<and> snd (on_message engine blank 3 0 (Parsed (msg ''redo'')))
       = [Broadcast default_room (HistoryMsg []) [2, 3]]"
proof -
  have h: "history (room_of blank (roomId bob)) = []" and r: "redoStack (room_of blank (roomId bob)) = []"
    by (simp_all add: sample_rooms_of blank_room)
  note T = undo_redo_on_empty_stack_keeps_state [OF blank_clients(2) type_of_msg _ surjective_pairing]
  have u: "''undo'' = ''undo'' \<and> history (room_of blank (roomId bob)) = []
           \<or> ''undo'' = ''redo'' \<and> redoStack (room_of blank (roomId bob)) = []"
    using h by simp
  have v: "''redo'' = ''undo'' \<and> history (room_of blank (roomId bob)) = []
           \<or> ''redo'' = ''redo'' \<and> redoStack (room_of blank (roomId bob)) = []"
    using r by simp
  from T [OF u, of engine 0] T [OF v, of engine 0] blank_clients(2) h r show ?thesis
    by (simp add: sample_rooms_of blank_room blank_receivers)
qed

section \<open>Frames that enter no case, and frames that do\<close>




lemma sockets_rooms [simp]: "sockets (s\<lparr>rooms := rs\<rparr>) = sockets s"
  by (simp add: sockets_def)




lemma guest_clients: "map_of (clients sample_guest) 4 = Some init_conn"
  by (simp add: sample_guest_def on_connection_def sample_def)

lemma guest_room: "room_of sample_guest default_room = studio"
  by (simp add: sample_guest_def on_connection_def sample_def room_of_def getRoom_def)

lemma guest_receivers: "receivers (clients sample_guest) default_room = [2, 3]"
  by (simp add: sample_guest_def on_connection_def sample_def receivers_def in_room_def
      alice_def bob_def init_conn_def)




section \<open>Commands before a join\<close>

lemma before_join_init: "before_join init_conn"
  by (simp add: before_join_def init_conn_def)

lemma first_clients: "map_of (clients (on_connection init_server 4)) 4 = Some init_conn"
  by (simp add: on_connection_def init_server_def)

text \<open>
  A connection that has not joined has the room id \<^verbatim>\<open>"default"\<close>. Its \<^verbatim>\<open>undo\<close> takes the
  last stroke out of the history of that room, and on a server without rooms it creates
  the room: the claim C9 as stated fails.
\<close>

theorem command_before_join_changes_default_room:
  "before_join init_conn
   \<and> map_of (clients sample_guest) 4 = Some init_conn
   \<and> history (room_of sample_guest default_room) = [[seg ''a'' 7], [seg ''b'' 8]]
   \<and> history (room_of (fst (on_message engine sample_guest 4 0 (Parsed (msg ''undo'')))) default_room)
       = [[seg ''a'' 7]]
   \<and> map_of (clients (on_connection init_server 4)) 4 = Some init_conn
   \<and> rooms (on_connection init_server 4) default_room = None
   \<and> rooms (fst (on_message engine (on_connection init_server 4) 4 0 (Parsed (msg ''undo'')))) default_room
       = Some new_room"
proof -
  have r: "roomId init_conn = default_room" by (simp add: init_conn_def)
  have a: "history (room_of (fst (on_message engine sample_guest 4 0 (Parsed (msg ''undo'')))) default_room)
       = [[seg ''a'' 7]]"
    unfolding on_message_dispatch [OF guest_clients type_of_msg]
    by (simp add: dispatch_def undo_result Let_def r guest_room studio_def)
  have b: "rooms (on_connection init_server 4) default_room = None"
    by (simp add: on_connection_def init_server_def)
  then have "room_of (on_connection init_server 4) default_room = new_room"
    by (rule room_of_absent)
  then have c: "rooms (fst (on_message engine (on_connection init_server 4) 4 0 (Parsed (msg ''undo'')))) default_room
       = Some new_room"
    unfolding on_message_dispatch [OF first_clients type_of_msg]
    by (simp add: dispatch_def undo_result Let_def r new_room_def)
  from a b c before_join_init guest_clients first_clients show ?thesis
    by (simp add: guest_room studio_def)
qed

text \<open>
  C9, as amended. An \<^verbatim>\<open>undo\<close>, \<^verbatim>\<open>redo\<close> or \<^verbatim>\<open>clear\<close> received on a connection before
  it has joined acts on the room \<^verbatim>\<open>"default"\<close>: the room is created when it does not
  exist, the command is applied to its history and redo stack, and no other room is
  created or changed. The resulting history is broadcast to that room, unless the room
  has an open connection and \<^verbatim>\<open>JSON.stringify\<close> throws on the history: then nothing is
  sent and the \<^verbatim>\<open>RangeError\<close> is logged.
\<close>

theorem command_before_join_acts_on_default_room:
  assumes "map_of (clients s) cid = Some c"
    and "before_join c"
    and "get_prop ''type'' m = JStr t"
    and "t = ''undo'' \<or> t = ''redo'' \<or> t = ''clear''"
    and "on_message deep s cid rnd (Parsed m) = (s', out)"
    and "R = room_of s default_room"
  shows "rooms s' = (rooms s)(default_room \<mapsto> room_of s' default_room)
         \<and> room_of s' default_room =
             (if t = ''clear'' then R\<lparr>history := [], redoStack := []\<rparr>
              else if t = ''undo''
              then (if history R \<noteq> []
                    then R\<lparr>history := butlast (history R), redoStack := redoStack R @ [last (history R)]\<rparr>
                    else R)
              else (if redoStack R \<noteq> []
                    then R\<lparr>redoStack := butlast (redoStack R), history := history R @ [last (redoStack R)]\<rparr>
                    else R))
         \<and> out = (if receivers (clients s) default_room \<noteq> []
                      \<and> stringify_throws deep (HistoryMsg (history (room_of s' default_room)))
                   then [ConsoleError RangeError]
                   else [Broadcast default_room (HistoryMsg (history (room_of s' default_room)))
                           (receivers (clients s) default_room)])"
proof -
  from assms(2) have r: "roomId c = default_room" by (simp add: before_join_def)
  from assms(1,3,5) have d: "caught (dispatch deep s cid c rnd m (JStr t)) = (s', out)"
    by (simp add: on_message_dispatch)
  from assms(4) show ?thesis
  proof (elim disjE)
    assume "t = ''undo''"
    with d r assms(6) show ?thesis by (auto simp: dispatch_def undo_result Let_def)
  next
    assume "t = ''redo''"
    with d r assms(6) show ?thesis by (auto simp: dispatch_def redo_result Let_def)
  next
    assume "t = ''clear''"
    with d r assms(6) show ?thesis by (auto simp: dispatch_def clear_result)
  qed
qed

theorem command_before_join_acts_on_default_room_witness:
  "map_of (clients sample_guest) 4 = Some init_conn
   \<and> before_join init_conn
   \<and> room_of (fst (on_message engine sample_guest 4 0 (Parsed (msg ''clear'')))) default_room
       = \<lparr>users = roster, history = [], redoStack = []\<rparr>
   \<and> snd (on_message engine sample_guest 4 0 (Parsed (msg ''clear'')))
       = [Broadcast default_room (HistoryMsg []) [2, 3]]
   \<and> room_of (fst (on_message engine sample_guest 4 0 (Parsed (msg ''undo'')))) default_room
       = \<lparr>users = roster, history = [[seg ''a'' 7]], redoStack = [[seg ''a'' 9], [seg ''b'' 8]]\<rparr>
   \<and> snd (on_message engine sample_guest 4 0 (Parsed (msg ''undo'')))
       = [Broadcast default_room (HistoryMsg [[seg ''a'' 7]]) [2, 3]]"
proof -
  have c: "''clear'' = ''undo'' \<or> ''clear'' = ''redo'' \<or> ''clear'' = ''clear''"
    and u: "''undo'' = ''undo'' \<or> ''undo'' = ''redo'' \<or> ''undo'' = ''clear''"
    by simp_all
  note T = command_before_join_acts_on_default_room
         [OF guest_clients before_join_init type_of_msg _ surjective_pairing guest_room [symmetric]]
  from T [OF c, of engine 0] T [OF u, of engine 0] guest_clients before_join_init
  show ?thesis
    by (simp add: guest_receivers studio_def engine_history)
qed

section \<open>One broadcast for every undo and redo\<close>

text \<open>
  After the stroke with the deep segment has been committed and undone, a \<^verbatim>\<open>redo\<close>
  puts the stroke back into the history and then emits nothing: the one open connection
  of the room is sent no history, and the error is logged. The claim C10 as stated
  fails.
\<close>

theorem redo_of_deep_stroke_is_not_broadcast:
  "map_of (clients sunk) 2 = Some (alice\<lparr>currentStroke := []\<rparr>)
   \<and> receivers (clients sunk) default_room = [2]
   \<and> snd (on_message engine sunk 2 0 (Parsed (msg ''undo'')))
       = [Broadcast default_room (HistoryMsg []) [2]]
   \<and> history (room_of (fst (on_message engine (fst (on_message engine sunk 2 0 (Parsed (msg ''undo''))))
                                 2 0 (Parsed (msg ''redo'')))) default_room)
       = [[deep_seg]]
   \<and> snd (on_message engine (fst (on_message engine sunk 2 0 (Parsed (msg ''undo''))))
            2 0 (Parsed (msg ''redo'')))
       = [ConsoleError RangeError]"
proof -
  have r: "roomId (alice\<lparr>currentStroke := []\<rparr>) = default_room" by (simp add: alice_def)
  have u: "on_message engine sunk 2 0 (Parsed (msg ''undo''))
          = caught (case_undo engine sunk 2 (alice\<lparr>currentStroke := []\<rparr>))"
    by (simp add: on_message_dispatch [OF sunk_alice type_of_msg] dispatch_def)
  have after: "fst (on_message engine sunk 2 0 (Parsed (msg ''undo'')))
          = sunk\<lparr>rooms := (rooms sunk)(default_room \<mapsto>
              (room_of sunk default_room)\<lparr>history := [], redoStack := [[deep_seg]]\<rparr>)\<rparr>"
    and sent: "snd (on_message engine sunk 2 0 (Parsed (msg ''undo'')))
          = [Broadcast default_room (HistoryMsg []) [2]]"
    by (simp_all add: u undo_result Let_def r sunk_room sunk_receivers)
  have c: "map_of (clients (fst (on_message engine sunk 2 0 (Parsed (msg ''undo''))))) 2
          = Some (alice\<lparr>currentStroke := []\<rparr>)"
    by (simp add: after sunk_alice)
  have "on_message engine (fst (on_message engine sunk 2 0 (Parsed (msg ''undo'')))) 2 0 (Parsed (msg ''redo''))
          = caught (case_redo engine (fst (on_message engine sunk 2 0 (Parsed (msg ''undo''))))
                      2 (alice\<lparr>currentStroke := []\<rparr>))"
    by (simp add: on_message_dispatch [OF c type_of_msg] dispatch_def)
  then have "history (room_of (fst (on_message engine (fst (on_message engine sunk 2 0 (Parsed (msg ''undo''))))
                                 2 0 (Parsed (msg ''redo'')))) default_room) = [[deep_seg]]"
    and "snd (on_message engine (fst (on_message engine sunk 2 0 (Parsed (msg ''undo''))))
            2 0 (Parsed (msg ''redo''))) = [ConsoleError RangeError]"
    by (simp_all add: redo_result Let_def r after sunk_receivers engine_sunk)
  with sent sunk_alice sunk_receivers show ?thesis by simp
qed

text \<open>
  C10, as amended. Every \<^verbatim>\<open>undo\<close> and every \<^verbatim>\<open>redo\<close> message ends in one run of
  \<^verbatim>\<open>broadcastToRoom\<close> with the room's resulting history, whatever the stacks held: the
  server emits exactly one history broadcast to the room, also when the stack was empty
  and the room is unchanged. The one exception is a history that \<^verbatim>\<open>JSON.stringify\<close>
  cannot serialise while the room has an open connection: then nothing is emitted and
  the \<^verbatim>\<open>RangeError\<close> is logged.
\<close>

theorem undo_redo_always_broadcast_once:
  assumes "map_of (clients s) cid = Some c"
    and "get_prop ''type'' m = JStr t"
    and "t = ''undo'' \<or> t = ''redo''"
    and "on_message deep s cid rnd (Parsed m) = (s', out)"
  shows "out = (if receivers (clients s) (roomId c) \<noteq> []
                   \<and> stringify_throws deep (HistoryMsg (history (room_of s' (roomId c))))
                then [ConsoleError RangeError]
                else [Broadcast (roomId c) (HistoryMsg (history (room_of s' (roomId c))))
                        (receivers (clients s) (roomId c))])"
proof -
  from assms(3) have "t = ''undo'' \<or> t = ''redo'' \<or> t = ''clear''" by blast
  from history_effects [OF assms(1,2) this assms(4)] show ?thesis .
qed

theorem undo_redo_always_broadcast_once_witness:
  "map_of (clients blank) 2 = Some alice
   \<and> history (room_of blank default_room) = []
   \<and> redoStack (room_of blank default_room) = []
   \<and> snd (on_message engine blank 2 0 (Parsed (msg ''undo''))) = [Broadcast default_room (HistoryMsg []) [2, 3]]
   \<and> snd (on_message engine blank 2 0 (Parsed (msg ''redo''))) = [Broadcast default_room (HistoryMsg []) [2, 3]]"
proof -
  have u: "history (room_of (fst (on_message engine blank 2 0 (Parsed (msg ''undo'')))) default_room) = []"
    unfolding on_message_dispatch [OF blank_clients(1) type_of_msg]
    by (simp add: dispatch_def undo_result Let_def sample_rooms_of blank_room)
  have r: "history (room_of (fst (on_message engine blank 2 0 (Parsed (msg ''redo'')))) default_room) = []"
    unfolding on_message_dispatch [OF blank_clients(1) type_of_msg]
    by (simp add: dispatch_def redo_result Let_def sample_rooms_of blank_room)
  note T = undo_redo_always_broadcast_once [OF blank_clients(1) type_of_msg _ surjective_pairing]
  from T [of "''undo''" engine 0] T [of "''redo''" engine 0] blank_clients(1) show ?thesis
    by (simp add: u r sample_rooms_of blank_receivers blank_room)
qed

end
